theory Spec2Isabelle
  imports Complex_Main
begin

section \<open>The delta generator \<^verbatim>\<open>simple-delta-gen.py\<close> as a state-passing model\<close>

text \<open>
  The script orchestrates external tools (cpio, bsdiff, zstd) over files. The model makes
  its world explicit:
  \<^item> the file system is a map from path strings to nodes: a regular file with its bytes, a
    directory, or another entry that is neither and cannot be opened. Paths are compared
    as strings (no normalisation, no symbolic links), and the directory part of a path
    that is created or opened for writing is taken to exist;
  \<^item> the external programs and the library routines whose results the script only passes
    on (number and exception formatting, gzip, the size \<^verbatim>\<open>stat\<close> reports for an entry that
    is no regular file) are fields of the record \<open>os\<close>; an external program writes
    nothing but its output file, and an extraction creates entries below its working
    directory only;
  \<^item> an uncaught Python exception is the \<open>Inl\<close> branch of a sum, a returned value the
    \<open>Inr\<close> branch;
  \<^item> \<open>self.log\<close> appends its message to the component \<open>logged\<close> of the world (console and
    log file receive the same lines; a failure to open the log file is not modelled);
  \<^item> every external process that is started is appended to the component \<open>calls\<close>;
  \<^item> the statistics report is the component \<open>report\<close>: the five numbers the text file
    \<^verbatim>\<open>statistics.txt\<close> is rendered from, the ratio as an exact rational (Python computes it
    in floating point); a failure to write that file is not modelled.
  Text is a list of 8-bit characters: code points above 255 and decoding errors are outside
  the model. Each definition names the lines of the script it renders; the longer functions
  of the script are cut into their consecutive parts. The constructor, which creates the
  log and working directories, \<^verbatim>\<open>find_rootfs_images\<close>, which nothing calls, and \<^verbatim>\<open>main\<close>
  are left out.
\<close>

subsection \<open>Data\<close>

type_synonym path = string
type_synonym bytes = string

datatype node = File bytes | Dir | Other

type_synonym fs = "path \<Rightarrow> node option"

datatype exn =
    FileNotFoundError
  | IsADirectoryError
  | NotADirectoryError
  | FileExistsError
  | OSError
  | CalledProcessError "string list" int

datatype call =
    CpioList path
  | CpioExtract path path
  | CpioBuild path string path
  | Bsdiff path path path
  | Zstd path path

record proc =
  returncode :: int
  stdout :: string
  stderr :: string

record stats =
  source_size :: int
  target_size :: int
  diff_size :: int
  compression_ratio :: rat
  space_saved :: int

record world =
  files :: fs
  logged :: "string list"
  calls :: "call list"
  report :: "stats option"

text \<open>
  The environment. \<open>cpio_it\<close> is \<^verbatim>\<open>cpio -it\<close> reading the archive bytes on its
  standard input; \<open>cpio_idmv\<close> is \<^verbatim>\<open>cpio -idmv\<close> run in a directory, giving its exit
  status and the entries it created there (names relative to that directory);
  \<open>sh_cpio_o\<close> is the whole shell pipeline of \<open>recompress_swu\<close> run in a directory on
  the text written to its standard input, its \<open>stdout\<close> being the archive bytes;
  \<open>bsdiff_tool\<close> and \<open>zstd_tool\<close> give the process result and the bytes of the output
  file when one is written. \<open>fmt\<close> is Python's \<^verbatim>\<open>format(value, spec)\<close> on a number.
\<close>

record os =
  which :: "string \<Rightarrow> bool"
  cpio_it :: "bytes \<Rightarrow> proc"
  cpio_idmv :: "fs \<Rightarrow> path \<Rightarrow> bytes \<Rightarrow> int \<times> (string \<times> node) list"
  sh_cpio_o :: "fs \<Rightarrow> path \<Rightarrow> string \<Rightarrow> proc"
  bsdiff_tool :: "node option \<Rightarrow> node option \<Rightarrow> proc \<times> bytes option"
  zstd_tool :: "nat \<Rightarrow> node option \<Rightarrow> proc \<times> bytes option"
  gzip_bytes :: "nat \<Rightarrow> bytes \<Rightarrow> bytes"
  nonfile_size :: "path \<Rightarrow> nat"
  fmt :: "string \<Rightarrow> rat \<Rightarrow> string"
  exn_str :: "exn \<Rightarrow> string"

record job =
  source_swu :: path
  target_swu :: path
  output_diff :: path
  log_dir :: path
  work_dir :: path
  recompressed_output :: "path option"

subsection \<open>Strings and paths\<close>

definition newline :: string where
  "newline = [CHR 0x0A]"

definition is_linebreak :: "char \<Rightarrow> bool" where
  "is_linebreak c = (c \<in> set [CHR 0x0A, CHR 0x0B, CHR 0x0C, CHR 0x0D, CHR 0x1C, CHR 0x1D, CHR 0x1E, CHR 0x85])"

text \<open>\<^verbatim>\<open>str.splitlines()\<close>: a carriage return followed by a line feed is one boundary, and a
  final boundary opens no further line. The first argument holds the current line, reversed.\<close>

fun splitlines_from :: "string \<Rightarrow> string \<Rightarrow> string list" where
  "splitlines_from cur [] = (if cur = [] then [] else [rev cur])"
| "splitlines_from cur (c # cs) =
     (if is_linebreak c then
        (if c = CHR 0x0D \<and> cs \<noteq> [] \<and> hd cs = CHR 0x0A
         then rev cur # splitlines_from [] (tl cs)
         else rev cur # splitlines_from [] cs)
      else splitlines_from (c # cur) cs)"

definition splitlines :: "string \<Rightarrow> string list" where
  "splitlines s = splitlines_from [] s"

definition is_space :: "char \<Rightarrow> bool" where
  "is_space c =
     (let n = (of_char c :: nat)
      in (9 \<le> n \<and> n \<le> 13) \<or> (28 \<le> n \<and> n \<le> 32) \<or> n = 133 \<or> n = 160)"

definition strip :: "string \<Rightarrow> string" where
  "strip s = rev (dropWhile is_space (rev (dropWhile is_space s)))"

text \<open>Line 87: \<^verbatim>\<open>[line.strip() for line in result.stdout.splitlines() if line.strip()]\<close>.\<close>

definition parse_listing :: "string \<Rightarrow> string list" where
  "parse_listing out = filter (\<lambda>l. l \<noteq> []) (map strip (splitlines out))"

fun join_with :: "string \<Rightarrow> string list \<Rightarrow> string" where
  "join_with sep [] = []"
| "join_with sep [x] = x"
| "join_with sep (x # y # ys) = x @ sep @ join_with sep (y # ys)"

text \<open>\<^verbatim>\<open>Path.__truediv__\<close> with a string: an absolute right operand replaces the left one.\<close>

definition path_join :: "path \<Rightarrow> string \<Rightarrow> path" where
  "path_join d n = (if n = [] then d else if hd n = CHR ''/'' then n else d @ ''/'' @ n)"

definition path_name :: "path \<Rightarrow> string" where
  "path_name p = rev (takeWhile (\<lambda>c. c \<noteq> CHR ''/'') (rev p))"

definition path_stem :: "path \<Rightarrow> string" where
  "path_stem p =
     (let n = path_name p;
          suffix = takeWhile (\<lambda>c. c \<noteq> CHR ''.'') (rev n)
      in if suffix \<noteq> [] \<and> length suffix + 1 < length n
         then take (length n - length suffix - 1) n
         else n)"

definition inside :: "path \<Rightarrow> path \<Rightarrow> bool" where
  "inside d p = (p = d \<or> take (length d + 1) p = d @ ''/'')"

subsection \<open>File system operations\<close>

definition is_file :: "fs \<Rightarrow> path \<Rightarrow> bool" where
  "is_file f p = (case f p of Some (File b) \<Rightarrow> True | _ \<Rightarrow> False)"

definition path_exists :: "fs \<Rightarrow> path \<Rightarrow> bool" where
  "path_exists f p = (f p \<noteq> None)"

definition st_size :: "os \<Rightarrow> fs \<Rightarrow> path \<Rightarrow> exn + int" where
  "st_size os f p =
     (case f p of
        None \<Rightarrow> Inl FileNotFoundError
      | Some (File b) \<Rightarrow> Inr (int (length b))
      | Some _ \<Rightarrow> Inr (int (nonfile_size os p)))"

definition open_rb :: "fs \<Rightarrow> path \<Rightarrow> exn + bytes" where
  "open_rb f p =
     (case f p of
        None \<Rightarrow> Inl FileNotFoundError
      | Some (File b) \<Rightarrow> Inr b
      | Some Dir \<Rightarrow> Inl IsADirectoryError
      | Some Other \<Rightarrow> Inl OSError)"

definition open_wb :: "fs \<Rightarrow> path \<Rightarrow> exn + fs" where
  "open_wb f p =
     (case f p of
        Some Dir \<Rightarrow> Inl IsADirectoryError
      | Some Other \<Rightarrow> Inl OSError
      | _ \<Rightarrow> Inr (f(p \<mapsto> File [])))"

definition mkdir_exist_ok :: "fs \<Rightarrow> path \<Rightarrow> exn + fs" where
  "mkdir_exist_ok f p =
     (case f p of
        None \<Rightarrow> Inr (f(p \<mapsto> Dir))
      | Some Dir \<Rightarrow> Inr f
      | Some _ \<Rightarrow> Inl FileExistsError)"

definition chdir_check :: "fs \<Rightarrow> path \<Rightarrow> exn option" where
  "chdir_check f d =
     (case f d of
        None \<Rightarrow> Some FileNotFoundError
      | Some Dir \<Rightarrow> None
      | Some _ \<Rightarrow> Some NotADirectoryError)"

text \<open>Starting a process in a working directory: \<^verbatim>\<open>Popen\<close> raises when the directory or
  the program is missing (the directory is entered first).\<close>

definition popen_check :: "os \<Rightarrow> string \<Rightarrow> fs \<Rightarrow> path \<Rightarrow> exn option" where
  "popen_check os prog f cwd =
     (case chdir_check f cwd of
        Some e \<Rightarrow> Some e
      | None \<Rightarrow> if which os prog then None else Some FileNotFoundError)"

definition rmtree :: "fs \<Rightarrow> path \<Rightarrow> fs" where
  "rmtree f d = (\<lambda>p. if inside d p then None else f p)"

fun write_entries :: "fs \<Rightarrow> path \<Rightarrow> (string \<times> node) list \<Rightarrow> fs" where
  "write_entries f d [] = f"
| "write_entries f d ((n, x) # es) = write_entries (f(d @ ''/'' @ n \<mapsto> x)) d es"

subsection \<open>Logging and process bookkeeping\<close>

text \<open>\<^verbatim>\<open>log\<close> (lines 40 to 45).\<close>

definition log_msg :: "world \<Rightarrow> string \<Rightarrow> world" where
  "log_msg w m = w\<lparr>logged := logged w @ [m]\<rparr>"

definition called :: "world \<Rightarrow> call \<Rightarrow> world" where
  "called w c = w\<lparr>calls := calls w @ [c]\<rparr>"

definition fmt_nat :: "os \<Rightarrow> nat \<Rightarrow> string" where
  "fmt_nat os n = fmt os [] (of_nat n)"

definition banner :: string where
  "banner = replicate 60 CHR ''=''"

text \<open>The listing of the first ten names and the count of the others (lines 89 to 92 and 211
  to 214).\<close>

definition log_first_ten :: "os \<Rightarrow> world \<Rightarrow> string list \<Rightarrow> world" where
  "log_first_ten os w names =
     (let w1 = foldl log_msg w
                 (map (\<lambda>(i, fname). ''  '' @ fmt_nat os i @ ''. '' @ fname)
                    (zip [1 ..< 11] (take 10 names)))
      in if length names > 10
         then log_msg w1 (''  ... and '' @ fmt_nat os (length names - 10) @ '' more files'')
         else w1)"

subsection \<open>\<open>extract_swu\<close>\<close>

text \<open>Lines 76 to 95: the listing. Only \<^verbatim>\<open>CalledProcessError\<close> is caught.\<close>

definition list_members :: "os \<Rightarrow> world \<Rightarrow> path \<Rightarrow> (exn + string list) \<times> world" where
  "list_members os w swu_file =
     (case open_rb (files w) swu_file of
        Inl e \<Rightarrow> (Inl e, w)
      | Inr archive \<Rightarrow>
          if which os ''cpio'' then
            (let p = cpio_it os archive;
                 w1 = called w (CpioList swu_file)
             in if returncode p = 0 then
                  (let file_order = parse_listing (stdout p);
                       w2 = log_msg w1 (''Original file order ('' @ fmt_nat os (length file_order)
                                          @ '' files):'')
                   in (Inr file_order, log_first_ten os w2 file_order))
                else
                  (Inr [], log_msg w1 (''WARNING: Failed to list files from '' @ path_name swu_file
                      @ '': '' @ exn_str os (CalledProcessError [''cpio'', ''-it''] (returncode p)))))
          else (Inl FileNotFoundError, w))"

text \<open>Lines 97 to 112: the extraction, and the returned order.\<close>

definition extract_members ::
  "os \<Rightarrow> world \<Rightarrow> path \<Rightarrow> path \<Rightarrow> string list \<Rightarrow> (exn + string list option) \<times> world" where
  "extract_members os w swu_file extract_dir file_order =
     (case open_rb (files w) swu_file of
        Inl e \<Rightarrow> (Inl e, w)
      | Inr archive \<Rightarrow>
          (case popen_check os ''cpio'' (files w) extract_dir of
             Some e \<Rightarrow> (Inl e, w)
           | None \<Rightarrow>
               (let (rc, entries) = cpio_idmv os (files w) extract_dir archive;
                    w1 = called w (CpioExtract swu_file extract_dir);
                    w2 = w1\<lparr>files := write_entries (files w1) extract_dir entries\<rparr>
                in if rc = 0 then
                     (Inr (if file_order \<noteq> [] then Some file_order else None),
                      log_msg w2 (''Extracted '' @ path_name swu_file @ '' successfully''))
                   else
                     (Inr None,
                      log_msg w2 (''Failed to extract '' @ path_name swu_file @ '': ''
                        @ exn_str os (CalledProcessError [''cpio'', ''-idmv''] rc))))))"

text \<open>Lines 67 to 112.\<close>

definition extract_swu ::
  "os \<Rightarrow> world \<Rightarrow> path \<Rightarrow> path \<Rightarrow> (exn + string list option) \<times> world" where
  "extract_swu os w swu_file extract_dir =
     (let w1 = log_msg w (''Extracting '' @ path_name swu_file @ '' to '' @ extract_dir)
      in case list_members os w1 swu_file of
           (Inl e, w2) \<Rightarrow> (Inl e, w2)
         | (Inr file_order, w2) \<Rightarrow> extract_members os w2 swu_file extract_dir file_order)"

subsection \<open>\<open>run_command\<close>, \<open>create_bsdiff\<close> and the compressors\<close>

text \<open>\<open>run_command\<close> (lines 47 to 65) takes the command line, the trace entry of the
  process and what the process does to the file system. \<^verbatim>\<open>subprocess.run\<close> raises when the
  program is not found.\<close>

definition run_command ::
  "os \<Rightarrow> world \<Rightarrow> string list \<Rightarrow> string \<Rightarrow> call \<Rightarrow> (fs \<Rightarrow> proc \<times> fs) \<Rightarrow> (exn + bool) \<times> world" where
  "run_command os w cmd description c effect =
     (let w1 = log_msg w (''Running: '' @ description);
          w2 = log_msg w1 (''Command: '' @ join_with '' '' cmd)
      in case cmd of
           [] \<Rightarrow> (Inl OSError, w2)
         | prog # args \<Rightarrow>
             if which os prog then
               (let (p, f) = effect (files w2);
                    w3 = (called w2 c)\<lparr>files := f\<rparr>
                in if returncode p = 0 then
                     (Inr True, if stdout p \<noteq> [] then log_msg w3 (''Output: '' @ stdout p) else w3)
                   else
                     (Inr False,
                      log_msg
                        (log_msg w3 (''ERROR: Command failed with code '' @ fmt os [] (of_int (returncode p))))
                        (''STDERR: '' @ stderr p)))
             else (Inl FileNotFoundError, w2))"

definition write_output :: "fs \<Rightarrow> path \<Rightarrow> proc \<times> bytes option \<Rightarrow> proc \<times> fs" where
  "write_output f out r = (fst r, case snd r of None \<Rightarrow> f | Some b \<Rightarrow> f(out \<mapsto> File b))"

text \<open>Lines 129 to 139.\<close>

definition create_bsdiff :: "os \<Rightarrow> world \<Rightarrow> path \<Rightarrow> path \<Rightarrow> path \<Rightarrow> (exn + bool) \<times> world" where
  "create_bsdiff os w source_file target_file diff_file =
     (let w1 = log_msg w (''Creating bsdiff: '' @ path_name source_file @ '' -> '' @ path_name target_file)
      in if which os ''bsdiff'' then
           run_command os w1 [''bsdiff'', source_file, target_file, diff_file]
             ''Binary diff with bsdiff'' (Bsdiff source_file target_file diff_file)
             (\<lambda>f. write_output f diff_file (bsdiff_tool os (f source_file) (f target_file)))
         else (Inr False, log_msg w1 ''ERROR: bsdiff not found in PATH''))"

text \<open>Lines 152 to 159: the input is opened first, then the output.\<close>

definition compress_with_gzip :: "os \<Rightarrow> world \<Rightarrow> path \<Rightarrow> path \<Rightarrow> (exn + bool) \<times> world" where
  "compress_with_gzip os w input_file output_file =
     (let w1 = log_msg w (''Compressing '' @ path_name input_file @ '' with gzip'')
      in case open_rb (files w1) input_file of
           Inl e \<Rightarrow> (Inl e, w1)
         | Inr content \<Rightarrow>
             (case open_wb (files w1) output_file of
                Inl e \<Rightarrow> (Inl e, w1)
              | Inr f \<Rightarrow> (Inr True, w1\<lparr>files := f(output_file \<mapsto> File (gzip_bytes os 6 content))\<rparr>)))"

text \<open>Lines 141 to 150, with the default level 3.\<close>

definition compress_with_zstd :: "os \<Rightarrow> world \<Rightarrow> path \<Rightarrow> path \<Rightarrow> (exn + bool) \<times> world" where
  "compress_with_zstd os w input_file output_file =
     (let w1 = log_msg w (''Compressing '' @ path_name input_file @ '' with zstd'')
      in if which os ''zstd'' then
           run_command os w1 [''zstd'', ''-f'', ''-3'', input_file, ''-o'', output_file]
             ''Compress with zstd'' (Zstd input_file output_file)
             (\<lambda>f. write_output f output_file (zstd_tool os 3 (f input_file)))
         else compress_with_gzip os (log_msg w1 ''WARNING: zstd not found, using gzip'')
                input_file output_file)"

subsection \<open>\<open>recompress_swu\<close>\<close>

definition sw_description :: string where
  "sw_description = ''sw-description''"

definition scratch_dir :: "job \<Rightarrow> path \<Rightarrow> path" where
  "scratch_dir j original_swu = path_join (work_dir j) (''recompress_'' @ path_stem original_swu)"

text \<open>Lines 167 to 181: the size of the original (0 when it cannot be read) and the scratch
  directory.\<close>

definition prepare_scratch :: "os \<Rightarrow> job \<Rightarrow> world \<Rightarrow> path \<Rightarrow> path \<Rightarrow> (exn + int) \<times> world" where
  "prepare_scratch os j w original_swu output_swu =
     (let w1 = log_msg w banner;
          w2 = log_msg w1 (''Recompressing SWU: '' @ path_name original_swu);
          w3 = log_msg w2 (''Output: '' @ output_swu);
          w4 = log_msg w3 banner;
          (original_size, w5) =
            (case st_size os (files w4) original_swu of
               Inr n \<Rightarrow> (n, w4)
             | Inl e \<Rightarrow> (0, log_msg w4 ''WARNING: Could not stat original file (may have been cleaned)''))
      in case mkdir_exist_ok (files w5) (scratch_dir j original_swu) of
           Inl e \<Rightarrow> (Inl e, w5)
         | Inr f \<Rightarrow> (Inr original_size, w5\<lparr>files := f\<rparr>))"

text \<open>Lines 188 to 195: the control member is put first.\<close>

definition enforce_first :: "world \<Rightarrow> string list \<Rightarrow> string list \<times> world" where
  "enforce_first w order =
     (if order = [] \<or> hd order \<noteq> sw_description then
        (let w1 = log_msg w ''WARNING: sw-description is not first in original file order!'';
             w2 = log_msg w1 ''This may indicate an invalid SWU file.''
         in (sw_description #
               (if sw_description \<in> set order then remove1 sw_description order else order), w2))
      else (order, w))"

text \<open>Lines 197 to 204: the names that are regular files below the scratch directory.\<close>

definition not_found_warning :: "string \<Rightarrow> string" where
  "not_found_warning fname = ''WARNING: File '' @ fname @ '' from CPIO listing not found on disk, skipping''"

definition verify_step :: "path \<Rightarrow> string list \<times> world \<Rightarrow> string \<Rightarrow> string list \<times> world" where
  "verify_step temp_extract acc fname =
     (if is_file (files (snd acc)) (path_join temp_extract fname)
      then (fst acc @ [fname], snd acc)
      else (fst acc, log_msg (snd acc) (not_found_warning fname)))"

definition verify_files :: "world \<Rightarrow> path \<Rightarrow> string list \<Rightarrow> string list \<times> world" where
  "verify_files w temp_extract order = foldl (verify_step temp_extract) ([], w) order"

text \<open>The handler of line 250: log, remove the scratch directory, report failure.\<close>

definition recompress_failed :: "os \<Rightarrow> world \<Rightarrow> path \<Rightarrow> exn \<Rightarrow> (exn + bool) \<times> world" where
  "recompress_failed os w temp_extract e =
     (let w1 = log_msg w (''ERROR during recompression: '' @ exn_str os e)
      in (Inr False, w1\<lparr>files := rmtree (files w1) temp_extract\<rparr>))"

text \<open>Line 231: the text written to the standard input of the pipeline, one name per line.\<close>

definition file_list_str :: "string list \<Rightarrow> string" where
  "file_list_str file_list = join_with newline file_list @ newline"

text \<open>Lines 206 to 253. The output file is opened, and so created empty, when the arguments
  of \<^verbatim>\<open>Popen\<close> are evaluated; the process then writes the archive into it.\<close>

definition build_archive ::
  "os \<Rightarrow> world \<Rightarrow> path \<Rightarrow> string list \<Rightarrow> path \<Rightarrow> int \<Rightarrow> (exn + bool) \<times> world" where
  "build_archive os w temp_extract file_list output_swu original_size =
     (if file_list = [] then (Inr False, log_msg w ''ERROR: No files to recompress!'')
      else
        (let w1 = log_msg w (''Recompressing with ORIGINAL file order (''
                     @ fmt_nat os (length file_list) @ '' files):'');
             w2 = log_first_ten os w1 file_list;
             w3 = log_msg w2 ''Creating recompressed CPIO archive with original file order...''
         in case open_wb (files w3) output_swu of
              Inl e \<Rightarrow> recompress_failed os w3 temp_extract e
            | Inr f \<Rightarrow>
                (let w4 = w3\<lparr>files := f\<rparr>
                 in case popen_check os ''sh'' (files w4) temp_extract of
                      Some e \<Rightarrow> recompress_failed os w4 temp_extract e
                    | None \<Rightarrow>
                        (let p = sh_cpio_o os (files w4) temp_extract (file_list_str file_list);
                             w5 = (called w4 (CpioBuild temp_extract (file_list_str file_list) output_swu))
                                    \<lparr>files := (files w4)(output_swu \<mapsto> File (stdout p))\<rparr>
                         in if returncode p \<noteq> 0 then
                              (Inr False, log_msg w5 (''ERROR: CPIO failed: '' @ stderr p))
                            else
                              (case st_size os (files w5) output_swu of
                                 Inl e \<Rightarrow> recompress_failed os w5 temp_extract e
                               | Inr recompressed_size \<Rightarrow>
                                   (let w6 = log_msg w5 (''Original size: ''
                                               @ fmt os '','' (of_int original_size) @ '' bytes'');
                                        w7 = log_msg w6 (''Recompressed size: ''
                                               @ fmt os '','' (of_int recompressed_size) @ '' bytes'');
                                        w8 = (if original_size > 0
                                              then log_msg w7 (''Size difference: ''
                                                     @ fmt os ''+,'' (of_int (recompressed_size - original_size))
                                                     @ '' bytes'')
                                              else w7);
                                        w9 = log_msg w8 ''Recompression completed successfully!''
                                    in (Inr True, w9\<lparr>files := rmtree (files w9) temp_extract\<rparr>)))))))"

text \<open>Lines 188 to 253, from the member order that \<open>extract_swu\<close> returned.\<close>

definition repackage ::
  "os \<Rightarrow> world \<Rightarrow> path \<Rightarrow> string list \<Rightarrow> path \<Rightarrow> int \<Rightarrow> (exn + bool) \<times> world" where
  "repackage os w temp_extract original_file_order output_swu original_size =
     (let (order, w1) = enforce_first w original_file_order;
          (file_list, w2) = verify_files w1 temp_extract order
      in build_archive os w2 temp_extract file_list output_swu original_size)"

text \<open>Lines 161 to 253.\<close>

definition recompress_swu :: "os \<Rightarrow> job \<Rightarrow> world \<Rightarrow> path \<Rightarrow> path \<Rightarrow> (exn + bool) \<times> world" where
  "recompress_swu os j w original_swu output_swu =
     (case prepare_scratch os j w original_swu output_swu of
        (Inl e, w1) \<Rightarrow> (Inl e, w1)
      | (Inr original_size, w1) \<Rightarrow>
          (case extract_swu os w1 original_swu (scratch_dir j original_swu) of
             (Inl e, w2) \<Rightarrow> (Inl e, w2)
           | (Inr None, w2) \<Rightarrow> (Inr False, log_msg w2 ''ERROR: Failed to extract SWU'')
           | (Inr (Some original_file_order), w2) \<Rightarrow>
               repackage os w2 (scratch_dir j original_swu) original_file_order output_swu
                 original_size))"

subsection \<open>\<open>generate_statistics\<close> and \<open>generate_delta\<close>\<close>

text \<open>Lines 320 to 338; line 326 is the ratio.\<close>

definition ratio_of :: "int \<Rightarrow> int \<Rightarrow> rat" where
  "ratio_of diff_sz target_sz =
     (if target_sz > 0 then (of_int diff_sz / of_int target_sz) * 100 else 0)"

definition generate_statistics :: "os \<Rightarrow> job \<Rightarrow> world \<Rightarrow> path \<Rightarrow> path \<Rightarrow> path \<Rightarrow> (exn + unit) \<times> world" where
  "generate_statistics os j w source_file target_file diff_file =
     (case st_size os (files w) source_file of
        Inl e \<Rightarrow> (Inl e, w)
      | Inr ssz \<Rightarrow>
          (case st_size os (files w) target_file of
             Inl e \<Rightarrow> (Inl e, w)
           | Inr tsz \<Rightarrow>
               (case st_size os (files w) diff_file of
                  Inl e \<Rightarrow> (Inl e, w)
                | Inr dsz \<Rightarrow>
                    (let w1 = w\<lparr>report := Some \<lparr>source_size = ssz, target_size = tsz, diff_size = dsz,
                                   compression_ratio = ratio_of dsz tsz, space_saved = tsz - dsz\<rparr>\<rparr>
                     in (Inr (), log_msg w1 (''Statistics written to ''
                           @ path_join (log_dir j) ''statistics.txt''))))))"

definition size_line :: "os \<Rightarrow> string \<Rightarrow> int \<Rightarrow> string" where
  "size_line os label n =
     label @ fmt os '','' (of_int n) @ '' bytes ('' @ fmt os ''.2f'' (of_int n / 1024 / 1024) @ '' MB)''"

text \<open>Lines 257 to 264.\<close>

definition announce :: "job \<Rightarrow> world \<Rightarrow> world" where
  "announce j w =
     (let w1 = log_msg w banner;
          w2 = log_msg w1 ''Starting SWU-to-SWU Delta Generation'';
          w3 = log_msg w2 (''Source: '' @ source_swu j);
          w4 = log_msg w3 (''Target: '' @ target_swu j);
          w5 = log_msg w4 (''Output Delta: '' @ output_diff j);
          w6 = (case recompressed_output j of
                  Some out \<Rightarrow> log_msg w5 (''Output Recompressed: '' @ out)
                | None \<Rightarrow> w5)
      in log_msg w6 banner)"

text \<open>Lines 266 to 271: the sizes of the two archives are read and logged.\<close>

definition size_probe :: "os \<Rightarrow> job \<Rightarrow> world \<Rightarrow> (exn + int \<times> int) \<times> world" where
  "size_probe os j w =
     (case st_size os (files w) (source_swu j) of
        Inl e \<Rightarrow> (Inl e, w)
      | Inr ssz \<Rightarrow>
          (case st_size os (files w) (target_swu j) of
             Inl e \<Rightarrow> (Inl e, w)
           | Inr tsz \<Rightarrow>
               (let w1 = log_msg w (size_line os ''Source SWU size: '' ssz);
                    w2 = log_msg w1 (size_line os ''Target SWU size: '' tsz)
                in (Inr (ssz, tsz), log_msg w2 []))))"

text \<open>Lines 273 to 284: the archive the source is diffed against.\<close>

definition choose_target :: "os \<Rightarrow> job \<Rightarrow> world \<Rightarrow> (exn + path) \<times> world" where
  "choose_target os j w =
     (case recompressed_output j of
        Some out \<Rightarrow>
          (let w1 = log_msg w ''Step 1: Recompressing target SWU for deterministic delta...''
           in case recompress_swu os j w1 (target_swu j) out of
                (Inl e, w2) \<Rightarrow> (Inl e, w2)
              | (Inr False, w2) \<Rightarrow>
                  (Inr (target_swu j), log_msg w2 ''WARNING: Recompression failed, using original target'')
              | (Inr True, w2) \<Rightarrow>
                  (Inr out, log_msg w2 ''Using recompressed target for delta generation''))
      | None \<Rightarrow> (Inr (target_swu j), log_msg w ''No recompression requested, using original target''))"

text \<open>Lines 306 to 309: the archive whose size the report gives as the target size.\<close>

definition stats_target :: "job \<Rightarrow> fs \<Rightarrow> path" where
  "stats_target j f =
     (case recompressed_output j of
        Some out \<Rightarrow> if path_exists f out then out else target_swu j
      | None \<Rightarrow> target_swu j)"

text \<open>Lines 304 to 318: the statistics and the closing lines.\<close>

definition finish :: "os \<Rightarrow> job \<Rightarrow> world \<Rightarrow> (exn + bool) \<times> world" where
  "finish os j w =
     (let w1 = log_msg w ''Step 4: Generating statistics...''
      in case generate_statistics os j w1 (source_swu j) (stats_target j (files w1)) (output_diff j) of
           (Inl e, w2) \<Rightarrow> (Inl e, w2)
         | (Inr u, w2) \<Rightarrow>
             (let w3 = log_msg w2 banner;
                  w4 = log_msg w3 ''Delta generation completed successfully!'';
                  w5 = log_msg w4 (''Delta file: '' @ output_diff j);
                  w6 = (case recompressed_output j of
                          Some out \<Rightarrow> log_msg w5 (''Recompressed target: '' @ out)
                        | None \<Rightarrow> w5)
              in (Inr True, log_msg w6 banner)))"

text \<open>Lines 286 to 318, from the chosen target.\<close>

definition diff_and_finish :: "os \<Rightarrow> job \<Rightarrow> world \<Rightarrow> path \<Rightarrow> (exn + bool) \<times> world" where
  "diff_and_finish os j w target_for_diff =
     (let w1 = log_msg w [];
          w2 = log_msg w1 ''Step 2: Creating binary diff between SWU files...'';
          w3 = log_msg w2 ''This approach diffs the complete .swu files (compressed archives)'';
          w4 = log_msg w3 ''which are smaller and faster than extracting/diffing internal images.'';
          w5 = log_msg w4 ''This may take several minutes...'';
          w6 = log_msg w5 [];
          temp_diff = path_join (work_dir j) ''swu.diff''
      in case create_bsdiff os w6 (source_swu j) target_for_diff temp_diff of
           (Inl e, w7) \<Rightarrow> (Inl e, w7)
         | (Inr False, w7) \<Rightarrow> (Inr False, w7)
         | (Inr True, w7) \<Rightarrow>
             (case compress_with_zstd os (log_msg w7 ''Step 3: Compressing diff file...'')
                     temp_diff (output_diff j) of
                (Inl e, w8) \<Rightarrow> (Inl e, w8)
              | (Inr False, w8) \<Rightarrow> (Inr False, w8)
              | (Inr True, w8) \<Rightarrow> finish os j w8))"

text \<open>Lines 255 to 318.\<close>

definition generate_delta :: "os \<Rightarrow> job \<Rightarrow> world \<Rightarrow> (exn + bool) \<times> world" where
  "generate_delta os j w =
     (case size_probe os j (announce j w) of
        (Inl e, w1) \<Rightarrow> (Inl e, w1)
      | (Inr sizes, w1) \<Rightarrow>
          (case choose_target os j w1 of
             (Inl e, w2) \<Rightarrow> (Inl e, w2)
           | (Inr target_for_diff, w2) \<Rightarrow> diff_and_finish os j w2 target_for_diff))"

subsection \<open>The contract of the archive tool\<close>


subsection \<open>A small environment for running the model\<close>

text \<open>In this environment an archive is the text of its member names, one per line: listing
  prints it, extraction creates a file for every name (and a directory for the name \<open>dir\<close>),
  and the pipeline answers with the names it was given. The diff of two files is their
  contents joined by a bar.\<close>

definition demo_os :: os where
  "demo_os =
     \<lparr>which = (\<lambda>prog. True),
      cpio_it = (\<lambda>a. \<lparr>returncode = 0, stdout = a, stderr = []\<rparr>),
      cpio_idmv = (\<lambda>f d a. (0, map (\<lambda>n. (n, if n = ''dir'' then Dir else File ''x'')) (parse_listing a))),
      sh_cpio_o = (\<lambda>f d names. \<lparr>returncode = 0, stdout = names, stderr = []\<rparr>),
      bsdiff_tool = (\<lambda>old new. case (old, new) of
          (Some (File a), Some (File b)) \<Rightarrow> (\<lparr>returncode = 0, stdout = [], stderr = []\<rparr>, Some (a @ ''|'' @ b))
        | _ \<Rightarrow> (\<lparr>returncode = 1, stdout = [], stderr = []\<rparr>, None)),
      zstd_tool = (\<lambda>level input. case input of
          Some (File a) \<Rightarrow> (\<lparr>returncode = 0, stdout = [], stderr = []\<rparr>, Some a)
        | _ \<Rightarrow> (\<lparr>returncode = 1, stdout = [], stderr = []\<rparr>, None)),
      gzip_bytes = (\<lambda>level b. b),
      nonfile_size = (\<lambda>p. 0),
      fmt = (\<lambda>spec x. ''#''),
      exn_str = (\<lambda>e. ''exn'')\<rparr>"

definition demo_job :: job where
  "demo_job = \<lparr>source_swu = ''s'', target_swu = ''t.swu'', output_diff = ''o'', log_dir = ''l'',
     work_dir = ''w'', recompressed_output = Some ''r''\<rparr>"

definition demo_world :: "bytes \<Rightarrow> world" where
  "demo_world archive =
     \<lparr>files = [''s'' \<mapsto> File ''old'', ''t.swu'' \<mapsto> File archive], logged = [], calls = [], report = None\<rparr>"

definition broken_build_os :: os where
  "broken_build_os = demo_os\<lparr>sh_cpio_o := (\<lambda>f d names. \<lparr>returncode = 1, stdout = ''pa'', stderr = ''e''\<rparr>)\<rparr>"

definition stale_world :: world where
  "stale_world =
     \<lparr>files = [''s'' \<mapsto> File ''old'', ''t.swu'' \<mapsto> File ''dir\<newline>'', ''w/recompress_t'' \<mapsto> Dir,
               ''w/recompress_t/sw-description'' \<mapsto> File ''stale''],
      logged = [], calls = [], report = None\<rparr>"

definition unlisted_os :: os where
  "unlisted_os = demo_os\<lparr>cpio_it := (\<lambda>a. \<lparr>returncode = 2, stdout = [], stderr = ''e''\<rparr>)\<rparr>"

definition scratch_world :: "bytes \<Rightarrow> world" where
  "scratch_world archive =
     \<lparr>files = [''s'' \<mapsto> File ''old'', ''t.swu'' \<mapsto> File archive, ''w/recompress_t'' \<mapsto> Dir],
      logged = [], calls = [], report = None\<rparr>"

definition alias_job :: job where
  "alias_job = demo_job\<lparr>recompressed_output := Some ''t.swu''\<rparr>"

definition no_source_world :: world where
  "no_source_world = \<lparr>files = [''t.swu'' \<mapsto> File ''a\<newline>''], logged = [], calls = [], report = None\<rparr>"

section \<open>Properties\<close>

subsection \<open>Logging and bookkeeping leave the files alone\<close>

lemma log_msg_simps [simp]:
  "files (log_msg w m) = files w" "calls (log_msg w m) = calls w"
  "report (log_msg w m) = report w" "logged (log_msg w m) = logged w @ [m]"
  by (simp_all add: log_msg_def)

lemma called_simps [simp]:
  "files (called w c) = files w" "calls (called w c) = calls w @ [c]"
  "report (called w c) = report w" "logged (called w c) = logged w"
  by (simp_all add: called_def)

lemma foldl_log_msg_frame [simp]:
  "files (foldl log_msg w ms) = files w" "calls (foldl log_msg w ms) = calls w"
  "report (foldl log_msg w ms) = report w" "logged (foldl log_msg w ms) = logged w @ ms"
  by (induction ms arbitrary: w) simp_all

lemma log_first_ten_frame [simp]:
  "files (log_first_ten os w names) = files w"
  "calls (log_first_ten os w names) = calls w"
  "report (log_first_ten os w names) = report w"
  by (simp_all add: log_first_ten_def Let_def)

lemma log_first_ten_logged:
  "set (logged w) \<subseteq> set (logged (log_first_ten os w names))"
  by (auto simp add: log_first_ten_def Let_def)

lemma announce_frame [simp]:
  "files (announce j w) = files w" "calls (announce j w) = calls w" "report (announce j w) = report w"
  by (simp_all add: announce_def Let_def split: option.splits)



subsection \<open>The stages of \<open>recompress_swu\<close>\<close>

lemma verify_step_eq:
  "verify_step d (acc, w) n =
     (if is_file (files w) (path_join d n) then (acc @ [n], w)
      else (acc, log_msg w (not_found_warning n)))"
  by (simp add: verify_step_def)

lemma verify_files_fold:
  "foldl (verify_step d) (acc, w) order =
     (acc @ filter (\<lambda>n. is_file (files w) (path_join d n)) order,
      foldl log_msg w (map not_found_warning (filter (\<lambda>n. \<not> is_file (files w) (path_join d n)) order)))"
proof (induction order arbitrary: acc w)
  case Nil
  show ?case by simp
next
  case (Cons n order)
  show ?case
  proof (cases "is_file (files w) (path_join d n)")
    case True
    then show ?thesis
      using Cons.IH [of "acc @ [n]" w] by (simp add: verify_step_eq)
  next
    case False
    then show ?thesis
      using Cons.IH [of acc "log_msg w (not_found_warning n)"] by (simp add: verify_step_eq)
  qed
qed

lemma verify_files_eq:
  "verify_files w d order =
     (filter (\<lambda>n. is_file (files w) (path_join d n)) order,
      foldl log_msg w (map not_found_warning (filter (\<lambda>n. \<not> is_file (files w) (path_join d n)) order)))"
  by (simp add: verify_files_def verify_files_fold)

lemma verify_files_logged:
  "logged (snd (verify_files w d order)) =
     logged w @ map not_found_warning (filter (\<lambda>n. \<not> is_file (files w) (path_join d n)) order)"
  by (simp add: verify_files_eq)

lemma verify_files_frame [simp]:
  "files (snd (verify_files w d order)) = files w"
  "calls (snd (verify_files w d order)) = calls w"
  by (simp_all add: verify_files_eq)


lemma enforce_first_frame [simp]:
  "files (snd (enforce_first w order)) = files w"
  "calls (snd (enforce_first w order)) = calls w"
  "report (snd (enforce_first w order)) = report w"
  by (simp_all add: enforce_first_def Let_def)

lemma enforce_first_order:
  "fst (enforce_first w order) =
     (if order = [] \<or> hd order \<noteq> sw_description
      then sw_description # (if sw_description \<in> set order then remove1 sw_description order else order)
      else order)"
  by (simp add: enforce_first_def Let_def)


lemma recompress_failed_simps [simp]:
  "fst (recompress_failed os w d e) = Inr False"
  "calls (snd (recompress_failed os w d e)) = calls w"
  "logged (snd (recompress_failed os w d e)) = logged w @ [''ERROR during recompression: '' @ exn_str os e]"
  "files (snd (recompress_failed os w d e)) = rmtree (files w) d"
  by (simp_all add: recompress_failed_def Let_def)

lemma open_wb_Inr: "open_wb f out = Inr g \<Longrightarrow> g = f(out \<mapsto> File [])"
  by (auto simp add: open_wb_def split: option.splits node.splits)

lemma build_archive_logged:
  "set (logged w) \<subseteq> set (logged (snd (build_archive os w d fl out sz)))"
  using log_first_ten_logged [of "log_msg w m" os fl for m]
  by (auto simp add: build_archive_def Let_def split: sum.splits option.splits)

lemma build_archive_calls:
  "calls (snd (build_archive os w d fl out sz)) = calls w \<or>
   calls (snd (build_archive os w d fl out sz)) = calls w @ [CpioBuild d (file_list_str fl) out]"
  by (auto simp add: build_archive_def Let_def split: sum.splits option.splits)

lemma build_archive_empty:
  "build_archive os w d [] out sz = (Inr False, log_msg w ''ERROR: No files to recompress!'')"
  by (simp add: build_archive_def)

lemma build_archive_started:
  assumes "fl \<noteq> []" and "open_wb (files w) out = Inr f" and "popen_check os ''sh'' f d = None"
  shows "calls (snd (build_archive os w d fl out sz)) = calls w @ [CpioBuild d (file_list_str fl) out]"
  using assms by (simp add: build_archive_def Let_def st_size_def split: sum.splits)

lemma build_archive_nonzero:
  assumes "fl \<noteq> []" and "open_wb (files w) out = Inr f" and "popen_check os ''sh'' f d = None"
      and "returncode (sh_cpio_o os f d (file_list_str fl)) \<noteq> 0"
  shows "fst (build_archive os w d fl out sz) = Inr False"
    and "files (snd (build_archive os w d fl out sz)) = f(out \<mapsto> File (stdout (sh_cpio_o os f d (file_list_str fl))))"
    and "''ERROR: CPIO failed: '' @ stderr (sh_cpio_o os f d (file_list_str fl))
           \<in> set (logged (snd (build_archive os w d fl out sz)))"
  using assms by (simp_all add: build_archive_def Let_def)

lemma build_archive_zero:
  assumes "fl \<noteq> []" and "open_wb (files w) out = Inr f" and "popen_check os ''sh'' f d = None"
      and "returncode (sh_cpio_o os f d (file_list_str fl)) = 0"
  shows "fst (build_archive os w d fl out sz) = Inr True"
    and "files (snd (build_archive os w d fl out sz)) =
           rmtree (f(out \<mapsto> File (stdout (sh_cpio_o os f d (file_list_str fl))))) d"
  using assms by (simp_all add: build_archive_def Let_def st_size_def)


lemma recompress_swu_repackage:
  assumes "prepare_scratch os j w original out = (Inr sz, w1)"
      and "extract_swu os w1 original (scratch_dir j original) = (Inr (Some listing), w2)"
  shows "recompress_swu os j w original out = repackage os w2 (scratch_dir j original) listing out sz"
  using assms by (simp add: recompress_swu_def)

lemma repackage_eq:
  "repackage os w d listing out sz =
     build_archive os (snd (verify_files (snd (enforce_first w listing)) d (fst (enforce_first w listing))))
       d (filter (\<lambda>n. is_file (files w) (path_join d n)) (fst (enforce_first w listing))) out sz"
  by (simp add: repackage_def verify_files_eq case_prod_unfold Let_def)

lemma prepare_scratch_ok:
  assumes "files w original = Some (File a)"
      and "files w (scratch_dir j original) = None \<or> files w (scratch_dir j original) = Some Dir"
  shows "fst (prepare_scratch os j w original out) = Inr (int (length a))"
    and "files (snd (prepare_scratch os j w original out)) = (files w)(scratch_dir j original \<mapsto> Dir)"
    and "calls (snd (prepare_scratch os j w original out)) = calls w"
  using assms by (auto simp add: prepare_scratch_def st_size_def mkdir_exist_ok_def Let_def)

lemma extract_swu_ok:
  assumes "files w swu = Some (File a)" and "which os ''cpio''" and "files w d = Some Dir"
      and "returncode (cpio_it os a) = 0" and "cpio_idmv os (files w) d a = (0, entries)"
  shows "fst (extract_swu os w swu d) =
           Inr (if parse_listing (stdout (cpio_it os a)) \<noteq> [] then Some (parse_listing (stdout (cpio_it os a))) else None)"
    and "files (snd (extract_swu os w swu d)) = write_entries (files w) d entries"
    and "calls (snd (extract_swu os w swu d)) = calls w @ [CpioList swu, CpioExtract swu d]"
  using assms
  by (simp_all add: extract_swu_def list_members_def extract_members_def open_rb_def popen_check_def
        chdir_check_def Let_def)

lemma extract_swu_unlisted:
  assumes "files w swu = Some (File a)" and "which os ''cpio''" and "files w d = Some Dir"
      and "returncode (cpio_it os a) \<noteq> 0"
  shows "fst (extract_swu os w swu d) = Inr None"
    and "calls (snd (extract_swu os w swu d)) = calls w @ [CpioList swu, CpioExtract swu d]"
    and "files (snd (extract_swu os w swu d)) = write_entries (files w) d (snd (cpio_idmv os (files w) d a))"
    and "''WARNING: Failed to list files from '' @ path_name swu @ '': ''
           @ exn_str os (CalledProcessError [''cpio'', ''-it''] (returncode (cpio_it os a)))
         \<in> set (logged (snd (extract_swu os w swu d)))"
    and "fst (cpio_idmv os (files w) d a) = 0 \<Longrightarrow>
           ''Extracted '' @ path_name swu @ '' successfully'' \<in> set (logged (snd (extract_swu os w swu d)))"
  using assms
  by (simp_all add: extract_swu_def list_members_def extract_members_def open_rb_def popen_check_def
        chdir_check_def Let_def case_prod_unfold)


lemma recompress_swu_no_order:
  assumes "prepare_scratch os j w original out = (Inr sz, w1)"
      and "fst (extract_swu os w1 original (scratch_dir j original)) = Inr None"
  shows "fst (recompress_swu os j w original out) = Inr False"
    and "logged (snd (recompress_swu os j w original out)) =
           logged (snd (extract_swu os w1 original (scratch_dir j original))) @ [''ERROR: Failed to extract SWU'']"
    and "calls (snd (recompress_swu os j w original out)) =
           calls (snd (extract_swu os w1 original (scratch_dir j original)))"
  using assms
  by (cases "extract_swu os w1 original (scratch_dir j original)"; simp add: recompress_swu_def)+

lemma reach_repackage:
  assumes a: "files w original = Some (File a)"
      and d: "files w (scratch_dir j original) = None \<or> files w (scratch_dir j original) = Some Dir"
      and c: "which os ''cpio''" and l: "returncode (cpio_it os a) = 0"
      and x: "cpio_idmv os ((files w)(scratch_dir j original \<mapsto> Dir)) (scratch_dir j original) a = (0, entries)"
      and p: "parse_listing (stdout (cpio_it os a)) = listing" and n: "listing \<noteq> []"
  obtains w1 w2 where "prepare_scratch os j w original out = (Inr (int (length a)), w1)"
      and "extract_swu os w1 original (scratch_dir j original) = (Inr (Some listing), w2)"
      and "files w2 = write_entries ((files w)(scratch_dir j original \<mapsto> Dir)) (scratch_dir j original) entries"
      and "calls w2 = calls w @ [CpioList original, CpioExtract original (scratch_dir j original)]"
proof -
  let ?d = "scratch_dir j original"
  let ?w1 = "snd (prepare_scratch os j w original out)"
  let ?w2 = "snd (extract_swu os ?w1 original ?d)"
  have ne: "original \<noteq> ?d"
    using a d by auto
  have f1: "files ?w1 = (files w)(?d \<mapsto> Dir)" and c1: "calls ?w1 = calls w"
    using prepare_scratch_ok(2,3) [OF a d] by simp_all
  have p1: "prepare_scratch os j w original out = (Inr (int (length a)), ?w1)"
    using prepare_scratch_ok(1) [OF a d] by (simp add: prod_eq_iff)
  have a1: "files ?w1 original = Some (File a)" and d1: "files ?w1 ?d = Some Dir"
    using a ne by (simp_all add: f1)
  have x1: "cpio_idmv os (files ?w1) ?d a = (0, entries)"
    using x by (simp add: f1)
  have p2: "extract_swu os ?w1 original ?d = (Inr (Some listing), ?w2)"
    using extract_swu_ok(1) [OF a1 c d1 l x1] p n by (simp add: prod_eq_iff)
  have f2: "files ?w2 = write_entries ((files w)(?d \<mapsto> Dir)) ?d entries"
    using extract_swu_ok(2) [OF a1 c d1 l x1] by (simp add: f1)
  have c2: "calls ?w2 = calls w @ [CpioList original, CpioExtract original ?d]"
    using extract_swu_ok(3) [OF a1 c d1 l x1] by (simp add: c1)
  show ?thesis
    using that [OF p1 p2 f2 c2] .
qed

lemma recompress_swu_run:
  assumes a: "files w original = Some (File a)"
      and d: "files w (scratch_dir j original) = None \<or> files w (scratch_dir j original) = Some Dir"
      and c: "which os ''cpio''" and l: "returncode (cpio_it os a) = 0"
      and x: "cpio_idmv os ((files w)(scratch_dir j original \<mapsto> Dir)) (scratch_dir j original) a = (0, entries)"
      and p: "parse_listing (stdout (cpio_it os a)) = listing" and n: "listing \<noteq> []"
      and fx: "fx = write_entries ((files w)(scratch_dir j original \<mapsto> Dir)) (scratch_dir j original) entries"
      and kept: "kept = filter (\<lambda>n. is_file fx (path_join (scratch_dir j original) n)) (fst (enforce_first w listing))"
      and ne: "kept \<noteq> []"
      and opened: "open_wb fx out = Inr fo"
      and started: "popen_check os ''sh'' fo (scratch_dir j original) = None"
      and pr: "pr = sh_cpio_o os fo (scratch_dir j original) (file_list_str kept)"
  shows "fst (recompress_swu os j w original out) = Inr (returncode pr = 0)"
    and "files (snd (recompress_swu os j w original out)) =
           (if returncode pr = 0 then rmtree (fo(out \<mapsto> File (stdout pr))) (scratch_dir j original)
            else fo(out \<mapsto> File (stdout pr)))"
    and "calls (snd (recompress_swu os j w original out)) =
           calls w @ [CpioList original, CpioExtract original (scratch_dir j original),
                      CpioBuild (scratch_dir j original) (file_list_str kept) out]"
proof -
  let ?d = "scratch_dir j original"
  obtain w1 w2 where
    prep: "prepare_scratch os j w original out = (Inr (int (length a)), w1)" and
    extr: "extract_swu os w1 original ?d = (Inr (Some listing), w2)" and
    fw2: "files w2 = fx" and
    cw2: "calls w2 = calls w @ [CpioList original, CpioExtract original ?d]"
    using reach_repackage [OF a d c l x p n] fx by metis
  let ?w4 = "snd (verify_files (snd (enforce_first w2 listing)) ?d (fst (enforce_first w2 listing)))"
  have same: "fst (enforce_first w2 listing) = fst (enforce_first w listing)"
    by (simp add: enforce_first_order)
  have eq: "recompress_swu os j w original out = build_archive os ?w4 ?d kept out (int (length a))"
    using recompress_swu_repackage [OF prep extr] kept by (simp add: repackage_eq fw2 same)
  have opened4: "open_wb (files ?w4) out = Inr fo"
    using opened by (simp add: fw2)
  show "fst (recompress_swu os j w original out) = Inr (returncode pr = 0)"
    using build_archive_zero(1) [OF ne opened4 started] build_archive_nonzero(1) [OF ne opened4 started] pr
    by (cases "returncode pr = 0") (simp_all add: eq)
  show "files (snd (recompress_swu os j w original out)) =
           (if returncode pr = 0 then rmtree (fo(out \<mapsto> File (stdout pr))) ?d else fo(out \<mapsto> File (stdout pr)))"
    using build_archive_zero(2) [OF ne opened4 started] build_archive_nonzero(2) [OF ne opened4 started] pr
    by (cases "returncode pr = 0") (simp_all add: eq)
  show "calls (snd (recompress_swu os j w original out)) =
           calls w @ [CpioList original, CpioExtract original ?d, CpioBuild ?d (file_list_str kept) out]"
    using build_archive_started [OF ne opened4 started] by (simp add: eq cw2)
qed

subsection \<open>What \<open>recompress_swu\<close> leaves untouched\<close>








subsection \<open>The lister reads back the text that is fed to the builder\<close>










subsection \<open>The steps of \<open>generate_delta\<close>\<close>








lemma size_probe_missing_source:
  assumes "files w (source_swu j) = None"
  shows "fst (size_probe os j (announce j w)) = Inl FileNotFoundError"
    and "fst (generate_delta os j w) = Inl FileNotFoundError"
  using assms by (simp_all add: generate_delta_def size_probe_def st_size_def)













subsection \<open>The sample environment\<close>

lemmas text_defs = newline_def is_linebreak_def splitlines_def is_space_def strip_def parse_listing_def

lemmas delta_defs = generate_delta_def size_probe_def choose_target_def diff_and_finish_def
  create_bsdiff_def run_command_def write_output_def compress_with_zstd_def finish_def stats_target_def
  generate_statistics_def st_size_def path_exists_def path_join_def ratio_of_def

lemma demo_os_simps [simp]:
  "which demo_os prog"
  "cpio_it demo_os a = \<lparr>returncode = 0, stdout = a, stderr = []\<rparr>"
  "cpio_idmv demo_os f d a = (0, map (\<lambda>n. (n, if n = ''dir'' then Dir else File ''x'')) (parse_listing a))"
  "sh_cpio_o demo_os f d names = \<lparr>returncode = 0, stdout = names, stderr = []\<rparr>"
  "nonfile_size demo_os p = 0"
  by (simp_all add: demo_os_def)

lemma demo_tools [simp]:
  "bsdiff_tool demo_os (Some (File a)) (Some (File b)) = (\<lparr>returncode = 0, stdout = [], stderr = []\<rparr>, Some (a @ ''|'' @ b))"
  "zstd_tool demo_os level (Some (File a)) = (\<lparr>returncode = 0, stdout = [], stderr = []\<rparr>, Some a)"
  by (simp_all add: demo_os_def)

lemma demo_world_simps [simp]:
  "files (demo_world a) = [''s'' \<mapsto> File ''old'', ''t.swu'' \<mapsto> File a]"
  "logged (demo_world a) = []" "calls (demo_world a) = []" "report (demo_world a) = None"
  by (simp_all add: demo_world_def)

lemma demo_job_simps [simp]:
  "source_swu demo_job = ''s''" "target_swu demo_job = ''t.swu''" "output_diff demo_job = ''o''"
  "log_dir demo_job = ''l''" "work_dir demo_job = ''w''" "recompressed_output demo_job = Some ''r''"
  by (simp_all add: demo_job_def)

lemma demo_scratch [simp]: "scratch_dir demo_job ''t.swu'' = ''w/recompress_t''"
  by (simp add: scratch_dir_def path_join_def path_stem_def path_name_def Let_def)


lemma broken_build_os_simps [simp]:
  "which broken_build_os prog"
  "cpio_it broken_build_os a = \<lparr>returncode = 0, stdout = a, stderr = []\<rparr>"
  "cpio_idmv broken_build_os f d a = (0, map (\<lambda>n. (n, if n = ''dir'' then Dir else File ''x'')) (parse_listing a))"
  "sh_cpio_o broken_build_os f d names = \<lparr>returncode = 1, stdout = ''pa'', stderr = ''e''\<rparr>"
  "nonfile_size broken_build_os p = 0"
  by (simp_all add: broken_build_os_def)

lemma broken_build_tools [simp]:
  "bsdiff_tool broken_build_os (Some (File a)) (Some (File b)) = (\<lparr>returncode = 0, stdout = [], stderr = []\<rparr>, Some (a @ ''|'' @ b))"
  "zstd_tool broken_build_os level (Some (File a)) = (\<lparr>returncode = 0, stdout = [], stderr = []\<rparr>, Some a)"
  by (simp_all add: broken_build_os_def demo_os_def)

lemma unlisted_os_simps [simp]:
  "which unlisted_os prog"
  "cpio_it unlisted_os a = \<lparr>returncode = 2, stdout = [], stderr = ''e''\<rparr>"
  "cpio_idmv unlisted_os f d a = (0, map (\<lambda>n. (n, if n = ''dir'' then Dir else File ''x'')) (parse_listing a))"
  by (simp_all add: unlisted_os_def)

lemma stale_world_simps [simp]:
  "files stale_world = [''s'' \<mapsto> File ''old'', ''t.swu'' \<mapsto> File ''dir\<newline>'', ''w/recompress_t'' \<mapsto> Dir,
                        ''w/recompress_t/sw-description'' \<mapsto> File ''stale'']"
  "calls stale_world = []"
  by (simp_all add: stale_world_def)

lemma scratch_world_simps [simp]:
  "files (scratch_world a) = [''s'' \<mapsto> File ''old'', ''t.swu'' \<mapsto> File a, ''w/recompress_t'' \<mapsto> Dir]"
  "logged (scratch_world a) = []" "calls (scratch_world a) = []"
  by (simp_all add: scratch_world_def)

lemma alias_job_simps [simp]:
  "source_swu alias_job = ''s''" "target_swu alias_job = ''t.swu''" "output_diff alias_job = ''o''"
  "log_dir alias_job = ''l''" "work_dir alias_job = ''w''" "recompressed_output alias_job = Some ''t.swu''"
  by (simp_all add: alias_job_def demo_job_def)

lemma demo_listing_two: "parse_listing ''sw-description\<newline>a\<newline>'' = [''sw-description'', ''a'']"
  by (simp add: text_defs)


lemma demo_listing_one: "parse_listing ''a\<newline>'' = [''a'']"
  by (simp add: text_defs)



lemma sample_recompress:
  assumes w: "files w = [''s'' \<mapsto> File ''old'', ''t.swu'' \<mapsto> File ''sw-description\<newline>a\<newline>'']"
      and j: "work_dir j = ''w''"
      and cpio: "which os ''cpio''" and sh: "which os ''sh''"
      and lst: "cpio_it os ''sw-description\<newline>a\<newline>'' = \<lparr>returncode = 0, stdout = ''sw-description\<newline>a\<newline>'', stderr = []\<rparr>"
      and ext: "\<And>f d. cpio_idmv os f d ''sw-description\<newline>a\<newline>'' = (0, [(''sw-description'', File ''x''), (''a'', File ''x'')])"
      and bld: "\<And>f d. sh_cpio_o os f d ''sw-description\<newline>a\<newline>'' = pr"
      and out: "out = ''r'' \<or> out = ''t.swu''"
      and fx: "fx = [''s'' \<mapsto> File ''old'', ''t.swu'' \<mapsto> File ''sw-description\<newline>a\<newline>'',
                     ''w/recompress_t'' \<mapsto> Dir, ''w/recompress_t/sw-description'' \<mapsto> File ''x'',
                     ''w/recompress_t/a'' \<mapsto> File ''x'']"
  shows "fst (recompress_swu os j w ''t.swu'' out) = Inr (returncode pr = 0)"
    and "files (snd (recompress_swu os j w ''t.swu'' out)) =
           (if returncode pr = 0 then rmtree (fx(out \<mapsto> File (stdout pr))) ''w/recompress_t''
            else fx(out \<mapsto> File (stdout pr)))"
    and "calls (snd (recompress_swu os j w ''t.swu'' out)) =
           calls w @ [CpioList ''t.swu'', CpioExtract ''t.swu'' ''w/recompress_t'',
                      CpioBuild ''w/recompress_t'' ''sw-description\<newline>a\<newline>'' out]"
proof -
  have d: "scratch_dir j ''t.swu'' = ''w/recompress_t''"
    by (simp add: scratch_dir_def j path_join_def path_stem_def path_name_def Let_def)
  have fls: "file_list_str [''sw-description'', ''a''] = ''sw-description\<newline>a\<newline>''"
    by (simp add: file_list_str_def newline_def)
  have h1: "files w ''t.swu'' = Some (File ''sw-description\<newline>a\<newline>'')"
    by (simp add: w)
  have h2: "files w (scratch_dir j ''t.swu'') = None \<or> files w (scratch_dir j ''t.swu'') = Some Dir"
    by (simp add: w d)
  have h4: "returncode (cpio_it os ''sw-description\<newline>a\<newline>'') = 0"
    by (simp add: lst)
  have h6: "parse_listing (stdout (cpio_it os ''sw-description\<newline>a\<newline>'')) = [''sw-description'', ''a'']"
    by (simp add: lst demo_listing_two)
  have h7: "[''sw-description'', ''a''] \<noteq> []"
    by simp
  have h8: "fx = write_entries ((files w)(scratch_dir j ''t.swu'' \<mapsto> Dir)) (scratch_dir j ''t.swu'')
                   [(''sw-description'', File ''x''), (''a'', File ''x'')]"
    by (simp add: w d fx)
  have h9: "[''sw-description'', ''a''] =
              filter (\<lambda>n. is_file fx (path_join (scratch_dir j ''t.swu'') n))
                (fst (enforce_first w [''sw-description'', ''a'']))"
    by (simp add: d fx enforce_first_order sw_description_def is_file_def path_join_def)
  have h10: "open_wb fx out = Inr (fx(out \<mapsto> File []))"
    using out by (auto simp add: fx open_wb_def)
  have h11: "popen_check os ''sh'' (fx(out \<mapsto> File [])) (scratch_dir j ''t.swu'') = None"
    using out by (auto simp add: d fx sh popen_check_def chdir_check_def)
  have h12: "pr = sh_cpio_o os (fx(out \<mapsto> File [])) (scratch_dir j ''t.swu'') (file_list_str [''sw-description'', ''a''])"
    by (simp add: bld fls)
  note run = recompress_swu_run [OF h1 h2 cpio h4 ext h6 h7 h8 h9 h7 h10 h11 h12]
  show "fst (recompress_swu os j w ''t.swu'' out) = Inr (returncode pr = 0)"
    using run(1) .
  show "files (snd (recompress_swu os j w ''t.swu'' out)) =
           (if returncode pr = 0 then rmtree (fx(out \<mapsto> File (stdout pr))) ''w/recompress_t''
            else fx(out \<mapsto> File (stdout pr)))"
    using run(2) by (simp add: d)
  show "calls (snd (recompress_swu os j w ''t.swu'' out)) =
           calls w @ [CpioList ''t.swu'', CpioExtract ''t.swu'' ''w/recompress_t'',
                      CpioBuild ''w/recompress_t'' ''sw-description\<newline>a\<newline>'' out]"
    using run(3) by (simp add: d fls)
qed


lemma broken_recompress:
  assumes "files w = [''s'' \<mapsto> File ''old'', ''t.swu'' \<mapsto> File ''sw-description\<newline>a\<newline>'']"
    and "work_dir j = ''w''" and "out = ''r'' \<or> out = ''t.swu''"
  shows "fst (recompress_swu broken_build_os j w ''t.swu'' out) = Inr False"
    and "files (snd (recompress_swu broken_build_os j w ''t.swu'' out)) =
           [''s'' \<mapsto> File ''old'', ''t.swu'' \<mapsto> File ''sw-description\<newline>a\<newline>'',
            ''w/recompress_t'' \<mapsto> Dir, ''w/recompress_t/sw-description'' \<mapsto> File ''x'',
            ''w/recompress_t/a'' \<mapsto> File ''x'', out \<mapsto> File ''pa'']"
    and "calls (snd (recompress_swu broken_build_os j w ''t.swu'' out)) =
           calls w @ [CpioList ''t.swu'', CpioExtract ''t.swu'' ''w/recompress_t'',
                      CpioBuild ''w/recompress_t'' ''sw-description\<newline>a\<newline>'' out]"
  using sample_recompress [OF assms(1,2), where os = broken_build_os and out = out
          and pr = "\<lparr>returncode = 1, stdout = ''pa'', stderr = ''e''\<rparr>", OF _ _ _ _ _ assms(3) refl]
  by (simp_all add: demo_listing_two)


section \<open>The claims\<close>

subsection \<open>Order preservation\<close>



subsection \<open>The control member\<close>



subsection \<open>The target size of the report\<close>

text \<open>
  Claim C3 fails where the pipeline exits with a status other than 0. On the sample job with
  such a builder, the source is diffed against the original target \<open>t.swu\<close> of 17 bytes,
  the job succeeds, and the target size of the report is 2, the size of the partial file
  the failed build left at the recompressed-output path.
\<close>

theorem statistics_not_of_diffed_target:
  "fst (choose_target broken_build_os demo_job (demo_world ''sw-description\<newline>a\<newline>'')) = Inr ''t.swu''
   \<and> fst (generate_delta broken_build_os demo_job (demo_world ''sw-description\<newline>a\<newline>'')) = Inr True
   \<and> calls (snd (generate_delta broken_build_os demo_job (demo_world ''sw-description\<newline>a\<newline>'')))
       = [CpioList ''t.swu'', CpioExtract ''t.swu'' ''w/recompress_t'',
          CpioBuild ''w/recompress_t'' ''sw-description\<newline>a\<newline>'' ''r'',
          Bsdiff ''s'' ''t.swu'' ''w/swu.diff'', Zstd ''w/swu.diff'' ''o'']
   \<and> st_size broken_build_os (files (snd (generate_delta broken_build_os demo_job (demo_world ''sw-description\<newline>a\<newline>''))))
        ''t.swu'' = Inr 17
   \<and> map_option target_size (report (snd (generate_delta broken_build_os demo_job (demo_world ''sw-description\<newline>a\<newline>''))))
       = Some 2"
  by (simp add: delta_defs broken_recompress Let_def case_prod_unfold)

subsection \<open>The fallback\<close>




subsection \<open>The verified member list\<close>

text \<open>
  Claim C5. Once the archive is extracted, every name of the corrected order list that is
  not a regular file below the scratch directory is kept out of the list given to the
  archive builder, and its warning is in the log; the builder is started at most once, and
  then on exactly the names kept; when no name is kept, \<open>recompress_swu\<close> returns
  \<open>False\<close> without starting the builder.
\<close>

theorem verified_list_filtering:
  assumes prep: "prepare_scratch os j w original out = (Inr sz, w1)"
      and extr: "extract_swu os w1 original (scratch_dir j original) = (Inr (Some listing), w2)"
      and kept: "kept = filter (\<lambda>n. is_file (files w2) (path_join (scratch_dir j original) n))
                          (fst (enforce_first w2 listing))"
      and run: "recompress_swu os j w original out = (r, w')"
  shows "(\<forall>n \<in> set (fst (enforce_first w2 listing)).
            \<not> is_file (files w2) (path_join (scratch_dir j original) n) \<longrightarrow>
              n \<notin> set kept \<and> not_found_warning n \<in> set (logged w'))
       \<and> (calls w' = calls w2 \<or>
            calls w' = calls w2 @ [CpioBuild (scratch_dir j original) (file_list_str kept) out])
       \<and> (kept = [] \<longrightarrow>
            r = Inr False \<and> calls w' = calls w2 \<and> ''ERROR: No files to recompress!'' \<in> set (logged w'))"
proof -
  let ?d = "scratch_dir j original"
  let ?order = "fst (enforce_first w2 listing)"
  let ?w3 = "snd (enforce_first w2 listing)"
  let ?w4 = "snd (verify_files ?w3 ?d ?order)"
  have eq: "(r, w') = build_archive os ?w4 ?d kept out sz"
    using recompress_swu_repackage [OF prep extr] run kept by (simp add: repackage_eq)
  have w': "w' = snd (build_archive os ?w4 ?d kept out sz)" and r: "r = fst (build_archive os ?w4 ?d kept out sz)"
    using eq by (metis snd_conv, metis fst_conv)
  have warned: "not_found_warning n \<in> set (logged w')"
    if "n \<in> set ?order" "\<not> is_file (files w2) (path_join ?d n)" for n
  proof -
    have "not_found_warning n \<in> set (logged ?w4)"
      using that by (simp add: verify_files_logged)
    then show ?thesis
      using build_archive_logged [of ?w4 os ?d kept out sz] w' by blast
  qed
  have absent: "n \<notin> set kept" if "\<not> is_file (files w2) (path_join ?d n)" for n
    using that kept by simp
  have fed: "calls w' = calls w2 \<or> calls w' = calls w2 @ [CpioBuild ?d (file_list_str kept) out]"
    using build_archive_calls [of os ?w4 ?d kept out sz] w' by simp
  have empty: "r = Inr False \<and> calls w' = calls w2 \<and> ''ERROR: No files to recompress!'' \<in> set (logged w')"
    if "kept = []"
    using that r w' by (simp add: build_archive_empty)
  show ?thesis
    using warned absent fed empty by blast
qed

theorem verified_list_filtering_witness:
  "fst (recompress_swu demo_os demo_job (demo_world ''dir\<newline>'') ''t.swu'' ''r'') = Inr False
   \<and> not_found_warning ''dir'' \<in> set (logged (snd (recompress_swu demo_os demo_job (demo_world ''dir\<newline>'') ''t.swu'' ''r'')))
   \<and> calls (snd (recompress_swu demo_os demo_job (demo_world ''dir\<newline>'') ''t.swu'' ''r''))
       = [CpioList ''t.swu'', CpioExtract ''t.swu'' ''w/recompress_t'']"
proof -
  let ?w = "demo_world ''dir\<newline>''"
  let ?p = "prepare_scratch demo_os demo_job ?w ''t.swu'' ''r''"
  let ?e = "extract_swu demo_os (snd ?p) ''t.swu'' ''w/recompress_t''"
  let ?run = "recompress_swu demo_os demo_job ?w ''t.swu'' ''r''"
  have f0: "files ?w ''t.swu'' = Some (File ''dir\<newline>'')" "files ?w ''w/recompress_t'' = None"
    by simp_all
  have prep: "?p = (Inr 4, snd ?p)"
    using prepare_scratch_ok(1) [of ?w "''t.swu''" "''dir\<newline>''" demo_job demo_os "''r''"] f0
    by (simp add: prod_eq_iff)
  have f1: "files (snd ?p) = (files ?w)(''w/recompress_t'' \<mapsto> Dir)" and c1: "calls (snd ?p) = []"
    using prepare_scratch_ok(2,3) [of ?w "''t.swu''" "''dir\<newline>''" demo_job demo_os "''r''"] f0
    by simp_all
  have listing: "parse_listing ''dir\<newline>'' = [''dir'']"
    by (simp add: text_defs)
  have d1: "files (snd ?p) ''t.swu'' = Some (File ''dir\<newline>'')"
    and d2: "files (snd ?p) ''w/recompress_t'' = Some Dir"
    by (simp_all add: f1 f0)
  have d3: "cpio_idmv demo_os (files (snd ?p)) ''w/recompress_t'' ''dir\<newline>'' = (0, [(''dir'', Dir)])"
    by (simp add: listing)
  have ex: "fst ?e = Inr (Some [''dir''])"
       "files (snd ?e) = write_entries (files (snd ?p)) ''w/recompress_t'' [(''dir'', Dir)]"
       "calls (snd ?e) = [CpioList ''t.swu'', CpioExtract ''t.swu'' ''w/recompress_t'']"
    using extract_swu_ok [OF d1 _ d2 _ d3] by (simp_all add: listing c1)
  have extr: "extract_swu demo_os (snd ?p) ''t.swu'' (scratch_dir demo_job ''t.swu'') = (Inr (Some [''dir'']), snd ?e)"
    using ex(1) by (simp add: prod_eq_iff)
  have order: "fst (enforce_first (snd ?e) [''dir'']) = [''sw-description'', ''dir'']"
    by (simp add: enforce_first_def sw_description_def Let_def)
  have gone: "\<not> is_file (files (snd ?e)) (path_join ''w/recompress_t'' ''dir'')"
             "\<not> is_file (files (snd ?e)) (path_join ''w/recompress_t'' ''sw-description'')"
    by (simp_all add: ex(2) f1 is_file_def path_join_def)
  have kept: "[] = filter (\<lambda>n. is_file (files (snd ?e)) (path_join (scratch_dir demo_job ''t.swu'') n))
                     (fst (enforce_first (snd ?e) [''dir'']))"
    using gone by (simp add: order)
  have run: "?run = (fst ?run, snd ?run)"
    by simp
  show ?thesis
    using verified_list_filtering [OF prep extr kept run] gone
    by (simp add: order ex(3))
qed

subsection \<open>A failed listing\<close>

text \<open>
  Claim C6, amended. When the archive can be opened and the listing command exits with a
  status other than 0, \<open>extract_swu\<close> raises nothing: it logs the warning and still runs
  the extraction; but it then returns \<open>None\<close>, whether the extraction succeeds or not, and
  \<open>None\<close> is what \<open>recompress_swu\<close> takes for a failed extraction.
\<close>

theorem listing_failure_returns_none:
  assumes "open_rb (files w) swu_file = Inr archive"
      and "which os ''cpio''"
      and "chdir_check (files w) extract_dir = None"
      and "returncode (cpio_it os archive) \<noteq> 0"
      and "extract_swu os w swu_file extract_dir = (r, w')"
  shows "r = Inr None
       \<and> ''WARNING: Failed to list files from '' @ path_name swu_file @ '': ''
           @ exn_str os (CalledProcessError [''cpio'', ''-it''] (returncode (cpio_it os archive)))
          \<in> set (logged w')
       \<and> calls w' = calls w @ [CpioList swu_file, CpioExtract swu_file extract_dir]
       \<and> files w' = write_entries (files w) extract_dir (snd (cpio_idmv os (files w) extract_dir archive))"
proof -
  have a: "files w swu_file = Some (File archive)"
    using assms(1) by (auto simp add: open_rb_def split: option.splits node.splits)
  have d: "files w extract_dir = Some Dir"
    using assms(3) by (auto simp add: chdir_check_def split: option.splits node.splits)
  have r: "r = fst (extract_swu os w swu_file extract_dir)" and w': "w' = snd (extract_swu os w swu_file extract_dir)"
    using assms(5) by simp_all
  show ?thesis
    using extract_swu_unlisted(1-4) [OF a assms(2) d assms(4)] r w' by simp
qed

theorem listing_failure_counterexample:
  "returncode (cpio_it unlisted_os ''a\<newline>'') = 2
   \<and> fst (cpio_idmv unlisted_os (files (scratch_world ''a\<newline>'')) ''w/recompress_t'' ''a\<newline>'') = 0
   \<and> fst (extract_swu unlisted_os (scratch_world ''a\<newline>'') ''t.swu'' ''w/recompress_t'') = Inr None
   \<and> ''Extracted t.swu successfully''
       \<in> set (logged (snd (extract_swu unlisted_os (scratch_world ''a\<newline>'') ''t.swu'' ''w/recompress_t'')))
   \<and> is_file (files (snd (extract_swu unlisted_os (scratch_world ''a\<newline>'') ''t.swu'' ''w/recompress_t'')))
        ''w/recompress_t/a''
   \<and> fst (recompress_swu unlisted_os demo_job (demo_world ''a\<newline>'') ''t.swu'' ''r'') = Inr False
   \<and> last (logged (snd (recompress_swu unlisted_os demo_job (demo_world ''a\<newline>'') ''t.swu'' ''r'')))
       = ''ERROR: Failed to extract SWU''"
proof -
  let ?w = "scratch_world ''a\<newline>''"
  have a: "files ?w ''t.swu'' = Some (File ''a\<newline>'')" and d: "files ?w ''w/recompress_t'' = Some Dir"
    by simp_all
  have l: "returncode (cpio_it unlisted_os ''a\<newline>'') \<noteq> 0"
    by simp
  have x: "fst (cpio_idmv unlisted_os (files ?w) ''w/recompress_t'' ''a\<newline>'') = 0"
    by simp
  note e = extract_swu_unlisted [OF a _ d l, simplified]
  have name: "path_name ''t.swu'' = ''t.swu''"
    by (simp add: path_name_def)
  let ?v = "demo_world ''a\<newline>''"
  let ?p = "prepare_scratch unlisted_os demo_job ?v ''t.swu'' ''r''"
  have v: "files ?v ''t.swu'' = Some (File ''a\<newline>'')"
    and vd: "files ?v (scratch_dir demo_job ''t.swu'') = None \<or> files ?v (scratch_dir demo_job ''t.swu'') = Some Dir"
    by simp_all
  have p: "?p = (Inr 2, snd ?p)"
    using prepare_scratch_ok(1) [OF v vd, of unlisted_os "''r''"] by (simp add: prod_eq_iff)
  have pf: "files (snd ?p) = (files ?v)(''w/recompress_t'' \<mapsto> Dir)"
    using prepare_scratch_ok(2) [OF v vd, of unlisted_os "''r''"] by simp
  have pa: "files (snd ?p) ''t.swu'' = Some (File ''a\<newline>'')"
    and pd: "files (snd ?p) (scratch_dir demo_job ''t.swu'') = Some Dir"
    by (simp_all add: pf)
  have n: "fst (extract_swu unlisted_os (snd ?p) ''t.swu'' (scratch_dir demo_job ''t.swu'')) = Inr None"
    using extract_swu_unlisted(1) [OF pa _ pd l] by simp
  show ?thesis
    using e recompress_swu_no_order(1,2) [OF p n]
    by (simp add: name demo_listing_one is_file_def)
qed

theorem listing_failure_returns_none_witness:
  "fst (extract_swu unlisted_os (scratch_world ''a\<newline>'') ''t.swu'' ''w/recompress_t'') = Inr None
   \<and> calls (snd (extract_swu unlisted_os (scratch_world ''a\<newline>'') ''t.swu'' ''w/recompress_t''))
       = [CpioList ''t.swu'', CpioExtract ''t.swu'' ''w/recompress_t'']
   \<and> files (snd (extract_swu unlisted_os (scratch_world ''a\<newline>'') ''t.swu'' ''w/recompress_t'')) ''w/recompress_t/a''
       = Some (File ''x'')"
proof -
  let ?e = "extract_swu unlisted_os (scratch_world ''a\<newline>'') ''t.swu'' ''w/recompress_t''"
  have o: "open_rb (files (scratch_world ''a\<newline>'')) ''t.swu'' = Inr ''a\<newline>''"
    by (simp add: open_rb_def)
  have c: "which unlisted_os ''cpio''"
    by simp
  have d: "chdir_check (files (scratch_world ''a\<newline>'')) ''w/recompress_t'' = None"
    by (simp add: chdir_check_def)
  have l: "returncode (cpio_it unlisted_os ''a\<newline>'') \<noteq> 0"
    by simp
  have e: "?e = (fst ?e, snd ?e)"
    by simp
  show ?thesis
    using listing_failure_returns_none [OF o c d l e] by (simp add: demo_listing_one)
qed

subsection \<open>The size probe\<close>

text \<open>
  Claim C7 fails for a source path at which there is no file: \<^verbatim>\<open>stat\<close> raises, nothing in
  \<open>generate_delta\<close> catches it, and the job ends with the exception instead of a result.
\<close>

theorem size_probe_raises:
  "files no_source_world (source_swu demo_job) = None
   \<and> fst (size_probe demo_os demo_job (announce demo_job no_source_world)) = Inl FileNotFoundError
   \<and> fst (generate_delta demo_os demo_job no_source_world) = Inl FileNotFoundError"
proof -
  have "files no_source_world (source_swu demo_job) = None"
    by (simp add: no_source_world_def)
  then show ?thesis
    using size_probe_missing_source by blast
qed

subsection \<open>The statistics of a successful job\<close>



subsection \<open>A failed build\<close>

text \<open>
  Claim C9. When the pipeline is started and exits with a status other than 0,
  \<open>recompress_swu\<close> returns \<open>False\<close>; the output file was created empty before the
  process ran (the process already sees it), and afterwards it holds whatever the process
  wrote, nothing being removed: a file, possibly empty or partial, stays at the output path.
\<close>

theorem failed_build_leaves_output:
  assumes prep: "prepare_scratch os j w original out = (Inr sz, w1)"
      and extr: "extract_swu os w1 original (scratch_dir j original) = (Inr (Some listing), w2)"
      and kept: "kept = filter (\<lambda>n. is_file (files w2) (path_join (scratch_dir j original) n))
                          (fst (enforce_first w2 listing))"
      and some: "kept \<noteq> []"
      and opened: "open_wb (files w2) out = Inr f"
      and started: "popen_check os ''sh'' f (scratch_dir j original) = None"
      and proc: "p = sh_cpio_o os f (scratch_dir j original) (file_list_str kept)"
      and nonzero: "returncode p \<noteq> 0"
      and run: "recompress_swu os j w original out = (r, w')"
  shows "r = Inr False
       \<and> f out = Some (File [])
       \<and> calls w' = calls w2 @ [CpioBuild (scratch_dir j original) (file_list_str kept) out]
       \<and> files w' = f(out \<mapsto> File (stdout p))
       \<and> files w' out = Some (File (stdout p))
       \<and> ''ERROR: CPIO failed: '' @ stderr p \<in> set (logged w')"
proof -
  let ?d = "scratch_dir j original"
  let ?w4 = "snd (verify_files (snd (enforce_first w2 listing)) ?d (fst (enforce_first w2 listing)))"
  have eq: "(r, w') = build_archive os ?w4 ?d kept out sz"
    using recompress_swu_repackage [OF prep extr] run kept by (simp add: repackage_eq)
  have w': "w' = snd (build_archive os ?w4 ?d kept out sz)" and r: "r = fst (build_archive os ?w4 ?d kept out sz)"
    using eq by (metis snd_conv, metis fst_conv)
  have opened4: "open_wb (files ?w4) out = Inr f"
    using opened by simp
  have "f out = Some (File [])"
    using open_wb_Inr [OF opened] by simp
  moreover have "r = Inr False"
    using build_archive_nonzero(1) [OF some opened4 started] nonzero proc r by simp
  moreover have "calls w' = calls w2 @ [CpioBuild ?d (file_list_str kept) out]"
    using build_archive_started [OF some opened4 started] w' by simp
  moreover have "files w' = f(out \<mapsto> File (stdout p))"
    using build_archive_nonzero(2) [OF some opened4 started] nonzero proc w' by simp
  moreover have "''ERROR: CPIO failed: '' @ stderr p \<in> set (logged w')"
    using build_archive_nonzero(3) [OF some opened4 started] nonzero proc w' by simp
  ultimately show ?thesis
    by simp
qed

theorem failed_build_leaves_output_witness:
  "fst (recompress_swu broken_build_os demo_job (demo_world ''sw-description\<newline>a\<newline>'') ''t.swu'' ''r'') = Inr False
   \<and> files (snd (recompress_swu broken_build_os demo_job (demo_world ''sw-description\<newline>a\<newline>'') ''t.swu'' ''r'')) ''r''
        = Some (File ''pa'')
   \<and> files (demo_world ''sw-description\<newline>a\<newline>'') ''r'' = None"
proof -
  let ?w = "demo_world ''sw-description\<newline>a\<newline>''"
  let ?run = "recompress_swu broken_build_os demo_job ?w ''t.swu'' ''r''"
  let ?f = "[''s'' \<mapsto> File ''old'', ''t.swu'' \<mapsto> File ''sw-description\<newline>a\<newline>'', ''w/recompress_t'' \<mapsto> Dir,
             ''w/recompress_t/sw-description'' \<mapsto> File ''x'', ''w/recompress_t/a'' \<mapsto> File ''x'']"
  obtain w1 w2 where
    prep: "prepare_scratch broken_build_os demo_job ?w ''t.swu'' ''r'' = (Inr 17, w1)" and
    extr': "extract_swu broken_build_os w1 ''t.swu'' ''w/recompress_t''
             = (Inr (Some [''sw-description'', ''a'']), w2)" and
    f2: "files w2 = ?f"
    using reach_repackage [where w = ?w and original = "''t.swu''" and j = demo_job
            and a = "''sw-description\<newline>a\<newline>''" and os = broken_build_os and out = "''r''"
            and entries = "[(''sw-description'', File ''x''), (''a'', File ''x'')]"
            and listing = "[''sw-description'', ''a'']"]
    by (simp add: demo_listing_two) blast
  have extr: "extract_swu broken_build_os w1 ''t.swu'' (scratch_dir demo_job ''t.swu'')
             = (Inr (Some [''sw-description'', ''a'']), w2)"
    using extr' by simp
  have kept: "[''sw-description'', ''a''] =
      filter (\<lambda>n. is_file (files w2) (path_join (scratch_dir demo_job ''t.swu'') n))
        (fst (enforce_first w2 [''sw-description'', ''a'']))"
    by (simp add: f2 enforce_first_def sw_description_def is_file_def path_join_def)
  have opened: "open_wb (files w2) ''r'' = Inr (?f(''r'' \<mapsto> File []))"
    by (simp add: f2 open_wb_def)
  have started: "popen_check broken_build_os ''sh'' (?f(''r'' \<mapsto> File [])) (scratch_dir demo_job ''t.swu'') = None"
    by (simp add: popen_check_def chdir_check_def)
  have run: "?run = (fst ?run, snd ?run)"
    by simp
  show ?thesis
    using failed_build_leaves_output [OF prep extr kept _ opened started refl _ run]
    by simp
qed

subsection \<open>Only regular files are archived\<close>




end
